theory Spec2Isabelle
  imports Main
begin

section \<open>JavaScript values\<close>

text \<open>
  The script of the site (\<^verbatim>\<open>script.js\<close>) fetches four JSON documents, stores the
  parsed values in the global \<^verbatim>\<open>AppState\<close> and renders them into markup that it
  assigns to the \<^verbatim>\<open>innerHTML\<close> of four containers of the page.

  A parsed JSON document is a JavaScript value. \<open>JUndefined\<close> never comes out of
  \<^verbatim>\<open>JSON.parse\<close>; it is what reading a missing property gives. Numbers are
  modelled on the integers: the script never computes with a payload number, it only
  tests its truthiness and converts it to text. An object is the association list of
  its own properties (the first binding of a key is the one that counts). Strings are
  lists of bytes (UTF-8); the script only concatenates them.
\<close>

datatype jsval =
    JUndefined
  | JNull
  | JBool bool
  | JNum int
  | JStr string
  | JArr "jsval list"
  | JObj "(string \<times> jsval) list"

text \<open>
  What the script can throw: the \<^verbatim>\<open>TypeError\<close> of the language (a property read on
  \<^verbatim>\<open>null\<close> or \<^verbatim>\<open>undefined\<close>, a call of something that is no function, an
  object with no primitive value), the rejection of \<^verbatim>\<open>fetch\<close>, the
  \<^verbatim>\<open>SyntaxError\<close> of \<^verbatim>\<open>response.json()\<close>, and the \<^verbatim>\<open>Error\<close> that
  \<^verbatim>\<open>loadJSON\<close> raises itself on a non-success status (file path and status).
\<close>

datatype exn =
    TypeError
  | NetworkError
  | SyntaxError
  | LoadError string nat

text \<open>Truthiness (\<^verbatim>\<open>ToBoolean\<close>): what \<^verbatim>\<open>!x\<close> and \<^verbatim>\<open>a && b\<close> test.\<close>

fun truthy :: "jsval \<Rightarrow> bool" where
  "truthy JUndefined = False"
| "truthy JNull = False"
| "truthy (JBool b) = b"
| "truthy (JNum n) = (n \<noteq> 0)"
| "truthy (JStr s) = (s \<noteq> [])"
| "truthy (JArr xs) = True"
| "truthy (JObj kvs) = True"

text \<open>
  The property read \<^verbatim>\<open>v.k\<close>. It throws on \<^verbatim>\<open>null\<close> and \<^verbatim>\<open>undefined\<close>. On
  an object it finds the own property or gives \<^verbatim>\<open>undefined\<close>; on any other value it
  gives \<^verbatim>\<open>undefined\<close>. This is right for the data keys the script reads
  (\<^verbatim>\<open>features\<close>, \<^verbatim>\<open>technologies\<close>, \<^verbatim>\<open>scenarios\<close>, \<^verbatim>\<open>deliveryItems\<close>,
  \<^verbatim>\<open>icon\<close>, \<^verbatim>\<open>title\<close>, \<^verbatim>\<open>description\<close>, \<^verbatim>\<open>value\<close>, \<^verbatim>\<open>scenario\<close>,
  \<^verbatim>\<open>painPoint\<close>, \<^verbatim>\<open>solution\<close>, \<^verbatim>\<open>benefit\<close>, \<^verbatim>\<open>reportType\<close>,
  \<^verbatim>\<open>frequency\<close>, \<^verbatim>\<open>coreContent\<close>): none of them is a member of a built-in
  prototype. The methods \<^verbatim>\<open>slice\<close>, \<^verbatim>\<open>map\<close> and \<^verbatim>\<open>join\<close> are modelled apart.
\<close>

fun get_prop :: "jsval \<Rightarrow> string \<Rightarrow> exn + jsval" where
  "get_prop JUndefined k = Inl TypeError"
| "get_prop JNull k = Inl TypeError"
| "get_prop (JObj kvs) k = Inr (case map_of kvs k of None \<Rightarrow> JUndefined | Some v \<Rightarrow> v)"
| "get_prop v k = Inr JUndefined"

text \<open>Decimal digits of an integer, as \<^verbatim>\<open>Number.prototype.toString\<close> prints it.\<close>

definition digit_char :: "nat \<Rightarrow> char" where
  "digit_char d = char_of (48 + d)"

function show_nat :: "nat \<Rightarrow> string" where
  "show_nat n = (if n < 10 then [digit_char n] else show_nat (n div 10) @ [digit_char (n mod 10)])"
  by pat_completeness auto
termination
  by (relation "measure (\<lambda>n. n)") auto

declare show_nat.simps [simp del]

definition show_int :: "int \<Rightarrow> string" where
  "show_int i = (if i < 0 then CHR ''-'' # show_nat (nat (- i)) else show_nat (nat i))"

text \<open>
  \<^verbatim>\<open>ToString\<close>, which a template literal applies to each substitution. An array
  prints as its elements joined by commas, \<^verbatim>\<open>null\<close> and \<^verbatim>\<open>undefined\<close> elements
  as the empty string. A plain object prints as \<^verbatim>\<open>[object Object]\<close>; when it has an
  own property \<^verbatim>\<open>toString\<close> (a JSON value, so not callable) the conversion finds no
  primitive value and throws.
\<close>

fun intercalate :: "string \<Rightarrow> string list \<Rightarrow> string" where
  "intercalate sep [] = []"
| "intercalate sep [s] = s"
| "intercalate sep (s # t # ss) = s @ sep @ intercalate sep (t # ss)"

fun to_string :: "jsval \<Rightarrow> exn + string"
  and elements_to_string :: "jsval list \<Rightarrow> exn + string list" where
  "to_string JUndefined = Inr ''undefined''"
| "to_string JNull = Inr ''null''"
| "to_string (JBool b) = Inr (if b then ''true'' else ''false'')"
| "to_string (JNum n) = Inr (show_int n)"
| "to_string (JStr s) = Inr s"
| "to_string (JArr xs) =
     (case elements_to_string xs of
        Inl e \<Rightarrow> Inl e
      | Inr ss \<Rightarrow> Inr (intercalate '','' ss))"
| "to_string (JObj kvs) =
     (if map_of kvs ''toString'' \<noteq> None then Inl TypeError else Inr ''[object Object]'')"
| "elements_to_string [] = Inr []"
| "elements_to_string (x # xs) =
     (case (if x = JNull \<or> x = JUndefined then Inr [] else to_string x) of
        Inl e \<Rightarrow> Inl e
      | Inr s \<Rightarrow>
          (case elements_to_string xs of
             Inl e \<Rightarrow> Inl e
           | Inr ss \<Rightarrow> Inr (s # ss)))"

section \<open>AppState\<close>

text \<open>The global state: the loading flag and the four payloads, all \<^verbatim>\<open>null\<close> at first.\<close>

record app_data =
  features :: jsval
  techAdvantages :: jsval
  useCases :: jsval
  serviceModel :: jsval

record app_state =
  isLoading :: bool
  data :: app_data

definition AppState :: app_state where
  "AppState =
     \<lparr>isLoading = False,
      data = \<lparr>features = JNull, techAdvantages = JNull, useCases = JNull, serviceModel = JNull\<rparr>\<rparr>"

section \<open>DataLoader\<close>

text \<open>
  The network is a parameter: \<open>fetch path\<close> is how the request for \<open>path\<close> settles,
  rejected (\<open>Inl\<close>) or fulfilled with a response. A response has the flag
  \<^verbatim>\<open>ok\<close>, its status, and the result of \<^verbatim>\<open>response.json()\<close>, which is the parsed
  body or a rejection when the body is not JSON. A request that never settles is not
  modelled: every function below is about a load cycle whose four requests settle.
  Console output is left out.
\<close>

record response =
  ok :: bool
  status :: nat
  json :: "exn + jsval"

type_synonym fetch = "string \<Rightarrow> exn + response"

text \<open>
  \<^verbatim>\<open>loadJSON\<close>: the body of the \<^verbatim>\<open>try\<close> first, then the \<^verbatim>\<open>catch\<close>, which turns
  every exception of the body into the value \<^verbatim>\<open>null\<close>.
\<close>

definition loadJSON_try :: "fetch \<Rightarrow> string \<Rightarrow> exn + jsval" where
  "loadJSON_try fetch filepath =
     (case fetch filepath of
        Inl e \<Rightarrow> Inl e
      | Inr response \<Rightarrow>
          if \<not> ok response then Inl (LoadError filepath (status response))
          else json response)"

definition loadJSON :: "fetch \<Rightarrow> string \<Rightarrow> exn + jsval" where
  "loadJSON fetch filepath =
     (case loadJSON_try fetch filepath of
        Inl error \<Rightarrow> Inr JNull
      | Inr v \<Rightarrow> Inr v)"

text \<open>
  \<^verbatim>\<open>Promise.all\<close>: fulfilled with the list of the values when every promise is
  fulfilled, rejected as soon as one is rejected (here: with the first rejection of the
  list).
\<close>

fun promise_all :: "(exn + 'a) list \<Rightarrow> exn + 'a list" where
  "promise_all [] = Inr []"
| "promise_all (Inl e # ps) = Inl e"
| "promise_all (Inr v # ps) =
     (case promise_all ps of Inl e \<Rightarrow> Inl e | Inr vs \<Rightarrow> Inr (v # vs))"

text \<open>Array destructuring: a position past the end of the array is \<^verbatim>\<open>undefined\<close>.\<close>

definition element_at :: "jsval list \<Rightarrow> nat \<Rightarrow> jsval" where
  "element_at vs i = (if i < length vs then vs ! i else JUndefined)"

text \<open>
  \<^verbatim>\<open>loadAllData\<close> is an \<^verbatim>\<open>async\<close> function with one \<^verbatim>\<open>await\<close>. What runs before
  the \<^verbatim>\<open>await\<close> is \<open>loadAllData_begin\<close>: the flag is set and the four requests are
  started. What runs once \<^verbatim>\<open>Promise.all\<close> has settled is \<open>loadAllData_settled\<close>: the
  rest of the \<^verbatim>\<open>try\<close>, or the \<^verbatim>\<open>catch\<close>, and then the \<^verbatim>\<open>finally\<close> on both
  paths. The result is the value the promise of \<^verbatim>\<open>loadAllData\<close> settles with
  (\<open>Inl\<close> would be a rejection) and the state it leaves.
\<close>

definition loadAllData_begin :: "app_state \<Rightarrow> app_state" where
  "loadAllData_begin st = st\<lparr>isLoading := True\<rparr>"

definition loadPromises :: "fetch \<Rightarrow> (exn + jsval) list" where
  "loadPromises fetch =
     [loadJSON fetch ''data/product-features.json'',
      loadJSON fetch ''data/tech-advantages.json'',
      loadJSON fetch ''data/use-cases.json'',
      loadJSON fetch ''data/service-model.json'']"

definition loadAllData_finally :: "app_state \<Rightarrow> app_state" where
  "loadAllData_finally st = st\<lparr>isLoading := False\<rparr>"

definition loadAllData_settled :: "exn + jsval list \<Rightarrow> app_state \<Rightarrow> (exn + bool) \<times> app_state" where
  "loadAllData_settled settled st =
     (case settled of
        Inr vs \<Rightarrow>
          (Inr True,
           loadAllData_finally
             (st\<lparr>data :=
                 \<lparr>features = element_at vs 0,
                  techAdvantages = element_at vs 1,
                  useCases = element_at vs 2,
                  serviceModel = element_at vs 3\<rparr>\<rparr>))
      | Inl error \<Rightarrow> (Inr False, loadAllData_finally st))"

definition loadAllData :: "fetch \<Rightarrow> app_state \<Rightarrow> (exn + bool) \<times> app_state" where
  "loadAllData fetch st =
     loadAllData_settled (promise_all (loadPromises fetch)) (loadAllData_begin st)"

section \<open>UIComponents\<close>

text \<open>
  A template literal is its static parts with the substitutions between them. The
  substitutions are evaluated and converted to text from left to right, and the first
  one that throws ends the evaluation.
\<close>

fun template :: "string list \<Rightarrow> (exn + string) list \<Rightarrow> exn + string" where
  "template (p # ps) (s # ss) =
     (case s of
        Inl e \<Rightarrow> Inl e
      | Inr t \<Rightarrow> (case template ps ss of Inl e \<Rightarrow> Inl e | Inr r \<Rightarrow> Inr (p @ t @ r)))"
| "template [p] [] = Inr p"
| "template ps ss = Inr []"

text \<open>The substitution \<^verbatim>\<open>${obj.k}\<close>: the property read, then \<^verbatim>\<open>ToString\<close>.\<close>

definition subst :: "jsval \<Rightarrow> string \<Rightarrow> exn + string" where
  "subst obj k = (case get_prop obj k of Inl e \<Rightarrow> Inl e | Inr v \<Rightarrow> to_string v)"

text \<open>
  The array methods the script calls on payload values. \<^verbatim>\<open>v.slice(0, n)\<close> exists on
  arrays and strings; \<^verbatim>\<open>v.map(f)\<close> on arrays only; on any other value the method is
  \<^verbatim>\<open>undefined\<close> (or, for an object with such a key, a JSON value) and the call
  throws. \<^verbatim>\<open>map\<close> stops at the first element on which \<open>f\<close> throws. The callbacks
  of the script return strings, so \<^verbatim>\<open>join('')\<close> is \<open>concat\<close>.
\<close>

fun slice_0 :: "nat \<Rightarrow> jsval \<Rightarrow> exn + jsval" where
  "slice_0 n (JArr xs) = Inr (JArr (take n xs))"
| "slice_0 n (JStr s) = Inr (JStr (take n s))"
| "slice_0 n v = Inl TypeError"

fun map_throw :: "('a \<Rightarrow> exn + 'b) \<Rightarrow> 'a list \<Rightarrow> exn + 'b list" where
  "map_throw f [] = Inr []"
| "map_throw f (x # xs) =
     (case f x of
        Inl e \<Rightarrow> Inl e
      | Inr y \<Rightarrow> (case map_throw f xs of Inl e \<Rightarrow> Inl e | Inr ys \<Rightarrow> Inr (y # ys)))"

fun array_map :: "(jsval \<Rightarrow> exn + 'b) \<Rightarrow> jsval \<Rightarrow> exn + 'b list" where
  "array_map f (JArr xs) = map_throw f xs"
| "array_map f v = Inl TypeError"

subsection \<open>renderFeatureCard\<close>

definition renderFeatureCard_part0 :: string where
  \<open>renderFeatureCard_part0 = ''\<newline>            <div class="feature-card bg-white rounded-lg p-6 shadow-md">\<newline>                <div class="text-4xl mb-4">''\<close>

definition renderFeatureCard_part1 :: string where
  \<open>renderFeatureCard_part1 = ''</div>\<newline>                <h3 class="text-xl font-bold text-tech-blue mb-3">''\<close>

definition renderFeatureCard_part2 :: string where
  \<open>renderFeatureCard_part2 = ''</h3>\<newline>                <p class="text-gray-700 mb-4">''\<close>

definition renderFeatureCard_part3 :: string where
  \<open>renderFeatureCard_part3 = ''</p>\<newline>                <div class="text-sm text-accent-cyan font-semibold">\<newline>                    '' @ [CHR 0xE4, CHR 0xBB, CHR 0xB7, CHR 0xE5, CHR 0x80, CHR 0xBC] @ '': ''\<close>

definition renderFeatureCard_part4 :: string where
  \<open>renderFeatureCard_part4 = ''\<newline>                </div>\<newline>            </div>\<newline>        ''\<close>

definition renderFeatureCard :: "jsval \<Rightarrow> exn + string" where
  "renderFeatureCard feature =
     template
       [renderFeatureCard_part0, renderFeatureCard_part1, renderFeatureCard_part2,
        renderFeatureCard_part3, renderFeatureCard_part4]
       [subst feature ''icon'', subst feature ''title'', subst feature ''description'',
        subst feature ''value'']"

subsection \<open>renderTechCard\<close>

definition renderTechCard_part0 :: string where
  \<open>renderTechCard_part0 = ''\<newline>            <div class="tech-card bg-white rounded-lg p-6 shadow-md text-center">\<newline>                <div class="text-3xl mb-3">''\<close>

definition renderTechCard_part1 :: string where
  \<open>renderTechCard_part1 = ''</div>\<newline>                <h4 class="text-lg font-bold text-tech-blue mb-2">''\<close>

definition renderTechCard_part2 :: string where
  \<open>renderTechCard_part2 = ''</h4>\<newline>                <p class="text-sm text-gray-600">''\<close>

definition renderTechCard_part3 :: string where
  \<open>renderTechCard_part3 = ''</p>\<newline>            </div>\<newline>        ''\<close>

definition renderTechCard :: "jsval \<Rightarrow> exn + string" where
  "renderTechCard tech =
     template
       [renderTechCard_part0, renderTechCard_part1, renderTechCard_part2,
        renderTechCard_part3]
       [subst tech ''icon'', subst tech ''title'', subst tech ''description'']"

subsection \<open>renderUseCaseCard\<close>

definition renderUseCaseCard_part0 :: string where
  \<open>renderUseCaseCard_part0 = ''\<newline>            <div class="bg-white rounded-lg p-6 shadow-md">\<newline>                <div class="text-4xl mb-4">''\<close>

definition renderUseCaseCard_part1 :: string where
  \<open>renderUseCaseCard_part1 = ''</div>\<newline>                <h3 class="text-xl font-bold text-tech-blue mb-3">''\<close>

definition renderUseCaseCard_part2 :: string where
  \<open>renderUseCaseCard_part2 = ''</h3>\<newline>                <div class="space-y-3">\<newline>                    <div>\<newline>                        <h4 class="font-semibold text-gray-800 mb-1">'' @ [CHR 0xE7, CHR 0x97, CHR 0x9B, CHR 0xE7, CHR 0x82, CHR 0xB9] @ '':</h4>\<newline>                        <p class="text-gray-600 text-sm">''\<close>

definition renderUseCaseCard_part3 :: string where
  \<open>renderUseCaseCard_part3 = ''</p>\<newline>                    </div>\<newline>                    <div>\<newline>                        <h4 class="font-semibold text-gray-800 mb-1">'' @ [CHR 0xE8, CHR 0xA7, CHR 0xA3, CHR 0xE5, CHR 0x86, CHR 0xB3, CHR 0xE6, CHR 0x96, CHR 0xB9, CHR 0xE6, CHR 0xA1, CHR 0x88] @ '':</h4>\<newline>                        <p class="text-gray-600 text-sm">''\<close>

definition renderUseCaseCard_part4 :: string where
  \<open>renderUseCaseCard_part4 = ''</p>\<newline>                    </div>\<newline>                    <div>\<newline>                        <h4 class="font-semibold text-accent-cyan mb-1">'' @ [CHR 0xE9, CHR 0xA2, CHR 0x84, CHR 0xE6, CHR 0x9C, CHR 0x9F, CHR 0xE6, CHR 0x94, CHR 0xB6, CHR 0xE7, CHR 0x9B, CHR 0x8A] @ '':</h4>\<newline>                        <p class="text-gray-600 text-sm">''\<close>

definition renderUseCaseCard_part5 :: string where
  \<open>renderUseCaseCard_part5 = ''</p>\<newline>                    </div>\<newline>                </div>\<newline>            </div>\<newline>        ''\<close>

definition renderUseCaseCard :: "jsval \<Rightarrow> exn + string" where
  "renderUseCaseCard useCase =
     template
       [renderUseCaseCard_part0, renderUseCaseCard_part1, renderUseCaseCard_part2,
        renderUseCaseCard_part3, renderUseCaseCard_part4, renderUseCaseCard_part5]
       [subst useCase ''icon'', subst useCase ''scenario'', subst useCase ''painPoint'',
        subst useCase ''solution'', subst useCase ''benefit'']"

subsection \<open>renderServiceTable\<close>

definition renderServiceTable_loading :: string where
  \<open>renderServiceTable_loading = ''<p class="text-center py-8 text-gray-600">'' @ [CHR 0xE6, CHR 0x9C, CHR 0x8D, CHR 0xE5, CHR 0x8A, CHR 0xA1, CHR 0xE6, CHR 0xA8, CHR 0xA1, CHR 0xE5, CHR 0xBC, CHR 0x8F, CHR 0xE6, CHR 0x95, CHR 0xB0, CHR 0xE6, CHR 0x8D, CHR 0xAE, CHR 0xE5, CHR 0x8A, CHR 0xA0, CHR 0xE8, CHR 0xBD, CHR 0xBD, CHR 0xE4, CHR 0xB8, CHR 0xAD] @ ''...</p>''\<close>

definition renderServiceTable_row_part0 :: string where
  \<open>renderServiceTable_row_part0 = ''\<newline>            <tr class="hover:bg-gray-50 transition-colors">\<newline>                <td class="px-6 py-4 font-semibold text-tech-blue">''\<close>

definition renderServiceTable_row_part1 :: string where
  \<open>renderServiceTable_row_part1 = ''</td>\<newline>                <td class="px-6 py-4">''\<close>

definition renderServiceTable_row_part2 :: string where
  \<open>renderServiceTable_row_part2 = ''</td>\<newline>                <td class="px-6 py-4">''\<close>

definition renderServiceTable_row_part3 :: string where
  \<open>renderServiceTable_row_part3 = ''</td>\<newline>                <td class="px-6 py-4">''\<close>

definition renderServiceTable_row_part4 :: string where
  \<open>renderServiceTable_row_part4 = ''</td>\<newline>            </tr>\<newline>        ''\<close>

definition renderServiceTable_head :: string where
  \<open>renderServiceTable_head = ''\<newline>            <table class="service-table w-full">\<newline>                <thead>\<newline>                    <tr class="bg-tech-blue text-white">\<newline>                        <th class="px-6 py-4 text-left">'' @ [CHR 0xE6, CHR 0x8A, CHR 0xA5, CHR 0xE5, CHR 0x91, CHR 0x8A, CHR 0xE7, CHR 0xB1, CHR 0xBB, CHR 0xE5, CHR 0x9E, CHR 0x8B] @ ''</th>\<newline>                        <th class="px-6 py-4 text-left">'' @ [CHR 0xE9, CHR 0xA2, CHR 0x91, CHR 0xE7, CHR 0x8E, CHR 0x87] @ ''</th>\<newline>                        <th class="px-6 py-4 text-left">'' @ [CHR 0xE6, CHR 0xA0, CHR 0xB8, CHR 0xE5, CHR 0xBF, CHR 0x83, CHR 0xE5, CHR 0x86, CHR 0x85, CHR 0xE5, CHR 0xAE, CHR 0xB9] @ ''</th>\<newline>                        <th class="px-6 py-4 text-left">'' @ [CHR 0xE4, CHR 0xBB, CHR 0xB7, CHR 0xE5, CHR 0x80, CHR 0xBC] @ ''</th>\<newline>                    </tr>\<newline>                </thead>\<newline>                <tbody>\<newline>                    ''\<close>

definition renderServiceTable_foot :: string where
  \<open>renderServiceTable_foot = ''\<newline>                </tbody>\<newline>            </table>\<newline>        ''\<close>

text \<open>The arrow function that \<^verbatim>\<open>renderServiceTable\<close> maps over the delivery items.\<close>

definition renderServiceTable_row :: "jsval \<Rightarrow> exn + string" where
  "renderServiceTable_row item =
     template
       [renderServiceTable_row_part0, renderServiceTable_row_part1,
        renderServiceTable_row_part2, renderServiceTable_row_part3,
        renderServiceTable_row_part4]
       [subst item ''reportType'', subst item ''frequency'', subst item ''coreContent'',
        subst item ''value'']"

definition renderServiceTable :: "jsval \<Rightarrow> exn + string" where
  "renderServiceTable model =
     (if \<not> truthy model then Inr renderServiceTable_loading
      else
        (case get_prop model ''deliveryItems'' of
           Inl e \<Rightarrow> Inl e
         | Inr deliveryItems \<Rightarrow>
             if \<not> truthy deliveryItems then Inr renderServiceTable_loading
             else
               (case array_map renderServiceTable_row deliveryItems of
                  Inl e \<Rightarrow> Inl e
                | Inr tableRows \<Rightarrow>
                    Inr (renderServiceTable_head @ concat tableRows @ renderServiceTable_foot))))"

section \<open>The page\<close>

text \<open>
  The document is the map from the \<^verbatim>\<open>id\<close> of an element to the markup last assigned
  to its \<^verbatim>\<open>innerHTML\<close>; an \<^verbatim>\<open>id\<close> outside its domain names no element, and
  \<^verbatim>\<open>getElementById\<close> gives \<^verbatim>\<open>null\<close> (\<open>None\<close>) for it. An element is known by its
  \<^verbatim>\<open>id\<close>. The four containers of the page are taken to be separate elements, none
  inside another, and the injected markup is not parsed: the staggered animation of
  \<^verbatim>\<open>renderFeatures\<close>, which only sets a style and a class on the cards it has just
  injected, is left out.
\<close>

type_synonym dom = "string \<rightharpoonup> string"

definition getElementById :: "dom \<Rightarrow> string \<Rightarrow> string option" where
  "getElementById d i = (case d i of None \<Rightarrow> None | Some html \<Rightarrow> Some i)"

definition set_innerHTML :: "string \<Rightarrow> string \<Rightarrow> dom \<Rightarrow> dom" where
  "set_innerHTML el html d = d(el \<mapsto> html)"

subsection \<open>Utils.showLoading\<close>

definition showLoading_markup :: string where
  \<open>showLoading_markup = ''\<newline>                <div class="loading-placeholder h-32 rounded-lg mb-4"></div>\<newline>                <div class="loading-placeholder h-4 rounded mb-2"></div>\<newline>                <div class="loading-placeholder h-4 rounded w-3/4"></div>\<newline>            ''\<close>

definition showLoading :: "string option \<Rightarrow> dom \<Rightarrow> dom" where
  "showLoading container d =
     (case container of
        None \<Rightarrow> d
      | Some el \<Rightarrow> set_innerHTML el showLoading_markup d)"

section \<open>PageManager\<close>

definition renderFeatures :: "app_state \<Rightarrow> dom \<Rightarrow> exn + dom" where
  "renderFeatures st d =
     (case getElementById d ''features-grid'' of
        None \<Rightarrow> Inr d
      | Some container \<Rightarrow>
          if \<not> truthy (features (data st)) then Inr d
          else
            (case get_prop (features (data st)) ''features'' of
               Inl e \<Rightarrow> Inl e
             | Inr fs \<Rightarrow>
                 if \<not> truthy fs then Inr d
                 else
                   (case slice_0 6 fs of
                      Inl e \<Rightarrow> Inl e
                    | Inr shown \<Rightarrow>
                        (case array_map renderFeatureCard shown of
                           Inl e \<Rightarrow> Inl e
                         | Inr cards \<Rightarrow> Inr (set_innerHTML container (concat cards) d)))))"

definition renderTechnologyPreview :: "app_state \<Rightarrow> dom \<Rightarrow> exn + dom" where
  "renderTechnologyPreview st d =
     (case getElementById d ''tech-preview'' of
        None \<Rightarrow> Inr d
      | Some container \<Rightarrow>
          if \<not> truthy (techAdvantages (data st)) then Inr d
          else
            (case get_prop (techAdvantages (data st)) ''technologies'' of
               Inl e \<Rightarrow> Inl e
             | Inr ts \<Rightarrow>
                 if \<not> truthy ts then Inr d
                 else
                   (case array_map renderTechCard ts of
                      Inl e \<Rightarrow> Inl e
                    | Inr cards \<Rightarrow> Inr (set_innerHTML container (concat cards) d))))"

definition renderUseCases :: "app_state \<Rightarrow> dom \<Rightarrow> exn + dom" where
  "renderUseCases st d =
     (case getElementById d ''use-cases-grid'' of
        None \<Rightarrow> Inr d
      | Some container \<Rightarrow>
          if \<not> truthy (useCases (data st)) then Inr d
          else
            (case get_prop (useCases (data st)) ''scenarios'' of
               Inl e \<Rightarrow> Inl e
             | Inr scs \<Rightarrow>
                 if \<not> truthy scs then Inr d
                 else
                   (case slice_0 3 scs of
                      Inl e \<Rightarrow> Inl e
                    | Inr shown \<Rightarrow>
                        (case array_map renderUseCaseCard shown of
                           Inl e \<Rightarrow> Inl e
                         | Inr cards \<Rightarrow> Inr (set_innerHTML container (concat cards) d)))))"

definition renderServiceModel :: "app_state \<Rightarrow> dom \<Rightarrow> exn + dom" where
  "renderServiceModel st d =
     (case getElementById d ''service-table-container'' of
        None \<Rightarrow> Inr d
      | Some container \<Rightarrow>
          (case renderServiceTable (serviceModel (data st)) of
             Inl e \<Rightarrow> Inl e
           | Inr html \<Rightarrow> Inr (set_innerHTML container html d)))"

definition renderFallbackContent_markup :: string where
  \<open>renderFallbackContent_markup = ''\<newline>                <div class="col-span-full text-center py-8">\<newline>                    <p class="text-gray-600">'' @ [CHR 0xE5, CHR 0x8A, CHR 0x9F, CHR 0xE8, CHR 0x83, CHR 0xBD, CHR 0xE4, CHR 0xBB, CHR 0x8B, CHR 0xE7, CHR 0xBB, CHR 0x8D, CHR 0xE5, CHR 0xB0, CHR 0x86, CHR 0xE5, CHR 0x9C, CHR 0xA8, CHR 0xE7, CHR 0xB3, CHR 0xBB, CHR 0xE7, CHR 0xBB, CHR 0x9F, CHR 0xE5, CHR 0x8D, CHR 0x87, CHR 0xE7, CHR 0xBA, CHR 0xA7, CHR 0xE5, CHR 0x90, CHR 0x8E, CHR 0xE5, CHR 0x91, CHR 0x88, CHR 0xE7, CHR 0x8E, CHR 0xB0, CHR 0xEF, CHR 0xBC, CHR 0x8C, CHR 0xE6, CHR 0x95, CHR 0xAC, CHR 0xE8, CHR 0xAF, CHR 0xB7, CHR 0xE6, CHR 0x9C, CHR 0x9F, CHR 0xE5, CHR 0xBE, CHR 0x85, CHR 0xE3, CHR 0x80, CHR 0x82] @ ''</p>\<newline>                </div>\<newline>            ''\<close>

definition renderFallbackContent :: "dom \<Rightarrow> dom" where
  "renderFallbackContent d =
     (case getElementById d ''features-grid'' of
        None \<Rightarrow> d
      | Some featuresContainer \<Rightarrow> set_innerHTML featuresContainer renderFallbackContent_markup d)"

text \<open>
  \<^verbatim>\<open>loadAndRenderContent\<close>, in the three steps of the source: the loading state of
  every container that exists, the load, and the branch on its result. The four render
  calls of the success branch run in order, and the first that throws ends the branch.
\<close>

definition showLoadingStates :: "dom \<Rightarrow> dom" where
  "showLoadingStates d =
     fold (\<lambda>container d'. (case container of None \<Rightarrow> d' | Some el \<Rightarrow> showLoading container d'))
       [getElementById d ''features-grid'', getElementById d ''tech-preview'',
        getElementById d ''use-cases-grid'', getElementById d ''service-table-container'']
       d"

definition renderLoaded :: "bool \<Rightarrow> app_state \<Rightarrow> dom \<Rightarrow> exn + dom" where
  "renderLoaded success st d =
     (if success then
        (case renderFeatures st d of
           Inl e \<Rightarrow> Inl e
         | Inr d1 \<Rightarrow>
             (case renderTechnologyPreview st d1 of
                Inl e \<Rightarrow> Inl e
              | Inr d2 \<Rightarrow>
                  (case renderUseCases st d2 of
                     Inl e \<Rightarrow> Inl e
                   | Inr d3 \<Rightarrow> renderServiceModel st d3)))
      else Inr (renderFallbackContent d))"

definition loadAndRenderContent :: "fetch \<Rightarrow> app_state \<times> dom \<Rightarrow> exn + app_state \<times> dom" where
  "loadAndRenderContent fetch w =
     (case loadAllData fetch (fst w) of
        (Inl e, st) \<Rightarrow> Inl e
      | (Inr success, st) \<Rightarrow>
          (case renderLoaded success st (showLoadingStates (snd w)) of
             Inl e \<Rightarrow> Inl e
           | Inr d \<Rightarrow> Inr (st, d)))"

section \<open>Notions of the specification and example inputs\<close>

text \<open>
  How one request ends, in the words of the specification: the resource has loaded
  with the payload \<open>v\<close> when the request is fulfilled with a success status and a body
  that parses to \<open>v\<close>; it has failed when the request is rejected (network error),
  answered with a non-success status, or answered with a body that does not parse.
\<close>

fun loaded :: "exn + response \<Rightarrow> jsval \<Rightarrow> bool" where
  "loaded (Inl e) v = False"
| "loaded (Inr r) v = (ok r \<and> json r = Inr v)"

fun failed :: "exn + response \<Rightarrow> bool" where
  "failed (Inl e) = True"
| "failed (Inr r) = (\<not> ok r \<or> (case json r of Inl e \<Rightarrow> True | Inr v \<Rightarrow> False))"

text \<open>
  A network on which the four requests end in the four ways: a parsed payload, a 404,
  a body that is not JSON, and a rejection.
\<close>

definition example_fetch :: fetch where
  "example_fetch path =
     (if path = ''data/product-features.json'' then
        Inr \<lparr>ok = True, status = 200, json = Inr (JObj [(''features'', JArr [])])\<rparr>
      else if path = ''data/tech-advantages.json'' then
        Inr \<lparr>ok = False, status = 404, json = Inr (JStr ''Not Found'')\<rparr>
      else if path = ''data/use-cases.json'' then
        Inr \<lparr>ok = True, status = 200, json = Inl SyntaxError\<rparr>
      else Inl NetworkError)"

text \<open>
  The records of the data model: an object that binds each of the listed keys to a
  string, and the string it binds a key to.
\<close>

fun is_text :: "jsval option \<Rightarrow> bool" where
  "is_text (Some (JStr s)) = True"
| "is_text v = False"

fun text_record :: "string list \<Rightarrow> jsval \<Rightarrow> bool" where
  "text_record ks (JObj kvs) = list_all (\<lambda>k. is_text (map_of kvs k)) ks"
| "text_record ks v = False"

fun field :: "jsval \<Rightarrow> string \<Rightarrow> string" where
  "field (JObj kvs) k = (case map_of kvs k of Some (JStr s) \<Rightarrow> s | _ \<Rightarrow> [])"
| "field v k = []"

definition feature_fields :: "string list" where
  "feature_fields = [''icon'', ''title'', ''description'', ''value'']"

definition useCase_fields :: "string list" where
  "useCase_fields = [''icon'', ''scenario'', ''painPoint'', ''solution'', ''benefit'']"

definition deliveryItem_fields :: "string list" where
  "deliveryItem_fields = [''reportType'', ''frequency'', ''coreContent'', ''value'']"

text \<open>
  A payload lacks a field when it is no object or is an object with no such key; it
  has a truthy field when it is an object that binds the key to a truthy value.
\<close>

fun lacks_field :: "jsval \<Rightarrow> string \<Rightarrow> bool" where
  "lacks_field (JObj kvs) k = (map_of kvs k = None)"
| "lacks_field v k = True"

fun has_truthy_field :: "jsval \<Rightarrow> string \<Rightarrow> bool" where
  "has_truthy_field (JObj kvs) k = (case map_of kvs k of None \<Rightarrow> False | Some v \<Rightarrow> truthy v)"
| "has_truthy_field v k = False"

text \<open>The record of the specification's example: a wrench (U+1F527) as icon.\<close>

definition wrench :: string where
  "wrench = [CHR 0xF0, CHR 0x9F, CHR 0x94, CHR 0xA7]"

definition example_feature :: "(string \<times> jsval) list" where
  "example_feature =
     [(''icon'', JStr wrench), (''title'', JStr ''T''), (''description'', JStr ''D''),
      (''value'', JStr ''V'')]"

text \<open>A page with the four containers, empty, and a network that rejects every request.\<close>

definition example_page :: dom where
  "example_page =
     [''features-grid'' \<mapsto> [], ''tech-preview'' \<mapsto> [], ''use-cases-grid'' \<mapsto> [],
      ''service-table-container'' \<mapsto> []]"

definition rejecting_fetch :: fetch where
  "rejecting_fetch path = Inl NetworkError"

text \<open>A state with the given payloads.\<close>

definition state_with :: "jsval \<Rightarrow> jsval \<Rightarrow> jsval \<Rightarrow> jsval \<Rightarrow> app_state" where
  "state_with f t u s =
     \<lparr>isLoading = False,
      data = \<lparr>features = f, techAdvantages = t, useCases = u, serviceModel = s\<rparr>\<rparr>"

text \<open>The delivery item of the specification's example.\<close>

definition example_deliveryItem :: jsval where
  "example_deliveryItem =
     JObj [(''reportType'', JStr ''A''), (''frequency'', JStr ''B''),
           (''coreContent'', JStr ''C''), (''value'', JStr ''D'')]"

text \<open>Ten features, numbered in their titles, and four use cases.\<close>

definition numbered_feature :: "nat \<Rightarrow> jsval" where
  "numbered_feature n =
     JObj [(''icon'', JStr ''*''), (''title'', JStr (show_nat n)),
           (''description'', JStr ''D''), (''value'', JStr ''V'')]"

definition numbered_useCase :: "nat \<Rightarrow> jsval" where
  "numbered_useCase n =
     JObj [(''icon'', JStr ''*''), (''scenario'', JStr (show_nat n)),
           (''painPoint'', JStr ''P''), (''solution'', JStr ''S''), (''benefit'', JStr ''B'')]"

definition example_loaded :: app_state where
  "example_loaded =
     state_with
       (JObj [(''features'', JArr (map numbered_feature [0..<10]))])
       JNull
       (JObj [(''scenarios'', JArr (map numbered_useCase [0..<4]))])
       JNull"

text \<open>The payloads after a load in which every resource failed.\<close>

definition null_data :: app_data where
  "null_data = \<lparr>features = JNull, techAdvantages = JNull, useCases = JNull, serviceModel = JNull\<rparr>"

section \<open>DataLoader: the load never fails\<close>

lemma loadJSON_loaded: "loaded (fetch p) v \<Longrightarrow> loadJSON fetch p = Inr v"
  by (cases "fetch p") (simp_all add: loadJSON_def loadJSON_try_def)

lemma loadJSON_failed: "failed (fetch p) \<Longrightarrow> loadJSON fetch p = Inr JNull"
  by (cases "fetch p") (auto simp: loadJSON_def loadJSON_try_def split: sum.splits)

lemma loaded_or_failed: "failed outcome \<or> (\<exists>v. loaded outcome v)"
  by (cases outcome) (auto split: sum.splits)

lemma loadJSON_resolves: "\<exists>v. loadJSON fetch p = Inr v"
  by (simp add: loadJSON_def split: sum.splits)

lemma promise_all_loadPromises:
  "promise_all (loadPromises fetch) =
     Inr [projr (loadJSON fetch ''data/product-features.json''),
          projr (loadJSON fetch ''data/tech-advantages.json''),
          projr (loadJSON fetch ''data/use-cases.json''),
          projr (loadJSON fetch ''data/service-model.json'')]"
proof -
  obtain a b c d where
    "loadJSON fetch ''data/product-features.json'' = Inr a"
    "loadJSON fetch ''data/tech-advantages.json'' = Inr b"
    "loadJSON fetch ''data/use-cases.json'' = Inr c"
    "loadJSON fetch ''data/service-model.json'' = Inr d"
    using loadJSON_resolves by metis
  then show ?thesis
    by (simp add: loadPromises_def)
qed

lemma loadAllData_result:
  "loadAllData fetch st =
     (Inr True,
      \<lparr>isLoading = False,
       data = \<lparr>features = projr (loadJSON fetch ''data/product-features.json''),
               techAdvantages = projr (loadJSON fetch ''data/tech-advantages.json''),
               useCases = projr (loadJSON fetch ''data/use-cases.json''),
               serviceModel = projr (loadJSON fetch ''data/service-model.json'')\<rparr>\<rparr>)"
  by (simp add: loadAllData_def promise_all_loadPromises loadAllData_settled_def
      loadAllData_begin_def loadAllData_finally_def element_at_def)

text \<open>
  Claim C1. Whatever way each of the four requests ends (loaded with a parsed payload,
  or failed by a network error, a non-success status or a parse error),
  \<^verbatim>\<open>loadAllData\<close> is fulfilled with \<^verbatim>\<open>true\<close>, never rejected, and each of the
  four keys of \<^verbatim>\<open>AppState.data\<close> holds the parsed payload of its resource when that
  resource loaded and \<^verbatim>\<open>null\<close> when it failed. (By \<open>loaded_or_failed\<close> the two
  cases cover every way a request can settle.)
\<close>

theorem loadAllData_fail_soft:
  "fst (loadAllData fetch st) = Inr True \<and>
   (\<forall>v. loaded (fetch ''data/product-features.json'') v \<longrightarrow>
        features (data (snd (loadAllData fetch st))) = v) \<and>
   (failed (fetch ''data/product-features.json'') \<longrightarrow>
        features (data (snd (loadAllData fetch st))) = JNull) \<and>
   (\<forall>v. loaded (fetch ''data/tech-advantages.json'') v \<longrightarrow>
        techAdvantages (data (snd (loadAllData fetch st))) = v) \<and>
   (failed (fetch ''data/tech-advantages.json'') \<longrightarrow>
        techAdvantages (data (snd (loadAllData fetch st))) = JNull) \<and>
   (\<forall>v. loaded (fetch ''data/use-cases.json'') v \<longrightarrow>
        useCases (data (snd (loadAllData fetch st))) = v) \<and>
   (failed (fetch ''data/use-cases.json'') \<longrightarrow>
        useCases (data (snd (loadAllData fetch st))) = JNull) \<and>
   (\<forall>v. loaded (fetch ''data/service-model.json'') v \<longrightarrow>
        serviceModel (data (snd (loadAllData fetch st))) = v) \<and>
   (failed (fetch ''data/service-model.json'') \<longrightarrow>
        serviceModel (data (snd (loadAllData fetch st))) = JNull)"
  by (simp add: loadAllData_result loadJSON_loaded loadJSON_failed)

theorem loadAllData_fail_soft_witness:
  "fst (loadAllData example_fetch AppState) = Inr True \<and>
   features (data (snd (loadAllData example_fetch AppState))) = JObj [(''features'', JArr [])] \<and>
   techAdvantages (data (snd (loadAllData example_fetch AppState))) = JNull \<and>
   useCases (data (snd (loadAllData example_fetch AppState))) = JNull \<and>
   serviceModel (data (snd (loadAllData example_fetch AppState))) = JNull"
  using loadAllData_fail_soft [of example_fetch AppState]
  by (simp add: example_fetch_def)

text \<open>
  Claim C7. \<^verbatim>\<open>loadAllData\<close> sets \<^verbatim>\<open>AppState.isLoading\<close> when the load cycle starts
  (the state in which the requests are awaited has the flag set) and resets it on both
  completion paths, the success return and the error return, so the flag is off in the
  state that any completed \<^verbatim>\<open>loadAllData\<close> leaves.
\<close>

theorem loadAllData_isLoading:
  "loadAllData fetch st =
     loadAllData_settled (promise_all (loadPromises fetch)) (loadAllData_begin st) \<and>
   isLoading (loadAllData_begin st) \<and>
   \<not> isLoading (snd (loadAllData_settled (Inr vs) st')) \<and>
   \<not> isLoading (snd (loadAllData_settled (Inl e) st')) \<and>
   \<not> isLoading (snd (loadAllData fetch st))"
  by (simp add: loadAllData_def loadAllData_settled_def loadAllData_begin_def
      loadAllData_finally_def split: sum.splits)

section \<open>UIComponents: what the renderers return\<close>

lemma is_text_cases: "is_text v \<Longrightarrow> \<exists>s. v = Some (JStr s)"
  by (cases v rule: is_text.cases) simp_all

lemma subst_text_record:
  "text_record ks item \<Longrightarrow> k \<in> set ks \<Longrightarrow> subst item k = Inr (field item k)"
proof (cases item)
  case (JObj kvs)
  assume "text_record ks item" "k \<in> set ks"
  with JObj have "is_text (map_of kvs k)" by (simp add: list_all_iff)
  then obtain s where "map_of kvs k = Some (JStr s)"
    using is_text_cases by blast
  with JObj show ?thesis
    by (simp add: subst_def)
qed simp_all

lemma renderFeatureCard_text_record:
  "text_record feature_fields f \<Longrightarrow>
   renderFeatureCard f =
     Inr (renderFeatureCard_part0 @ field f ''icon'' @ renderFeatureCard_part1 @
          field f ''title'' @ renderFeatureCard_part2 @ field f ''description'' @
          renderFeatureCard_part3 @ field f ''value'' @ renderFeatureCard_part4)"
  by (simp add: renderFeatureCard_def subst_text_record [where ks = feature_fields]
      feature_fields_def)

lemma renderUseCaseCard_text_record:
  "text_record useCase_fields u \<Longrightarrow>
   renderUseCaseCard u =
     Inr (renderUseCaseCard_part0 @ field u ''icon'' @ renderUseCaseCard_part1 @
          field u ''scenario'' @ renderUseCaseCard_part2 @ field u ''painPoint'' @
          renderUseCaseCard_part3 @ field u ''solution'' @ renderUseCaseCard_part4 @
          field u ''benefit'' @ renderUseCaseCard_part5)"
  by (simp add: renderUseCaseCard_def subst_text_record [where ks = useCase_fields]
      useCase_fields_def)

lemma renderServiceTable_row_text_record:
  "text_record deliveryItem_fields item \<Longrightarrow>
   renderServiceTable_row item =
     Inr (renderServiceTable_row_part0 @ field item ''reportType'' @
          renderServiceTable_row_part1 @ field item ''frequency'' @
          renderServiceTable_row_part2 @ field item ''coreContent'' @
          renderServiceTable_row_part3 @ field item ''value'' @
          renderServiceTable_row_part4)"
  by (simp add: renderServiceTable_row_def subst_text_record [where ks = deliveryItem_fields]
      deliveryItem_fields_def)

lemma map_throw_total:
  "\<forall>x \<in> set xs. \<exists>y. f x = Inr y \<Longrightarrow> map_throw f xs = Inr (map (\<lambda>x. projr (f x)) xs)"
  by (induction xs) auto

lemma table_not_loading:
  "renderServiceTable_head @ rest \<noteq> renderServiceTable_loading"
  by (simp add: renderServiceTable_head_def renderServiceTable_loading_def)

lemma renderServiceTable_guard_fails:
  "\<not> has_truthy_field model ''deliveryItems'' \<Longrightarrow>
   renderServiceTable model = Inr renderServiceTable_loading"
  by (cases model) (simp_all add: renderServiceTable_def split: option.splits)

lemma renderServiceTable_guard_passes:
  "has_truthy_field model ''deliveryItems'' \<Longrightarrow>
   renderServiceTable model \<noteq> Inr renderServiceTable_loading"
  by (cases model)
    (auto simp: renderServiceTable_def table_not_loading split: option.splits sum.splits)

lemma renderServiceTable_rows:
  assumes "map_of kvs ''deliveryItems'' = Some (JArr items)"
    and "list_all (text_record deliveryItem_fields) items"
  shows "renderServiceTable (JObj kvs) =
     Inr (renderServiceTable_head @
          concat (map (\<lambda>item. projr (renderServiceTable_row item)) items) @
          renderServiceTable_foot)"
proof -
  have "\<forall>item \<in> set items. \<exists>y. renderServiceTable_row item = Inr y"
    using assms(2) by (auto simp: list_all_iff renderServiceTable_row_text_record)
  then have "map_throw renderServiceTable_row items =
      Inr (map (\<lambda>item. projr (renderServiceTable_row item)) items)"
    by (rule map_throw_total)
  with assms(1) show ?thesis
    by (simp add: renderServiceTable_def)
qed

text \<open>
  Claim C3, as stated, fails. It says that \<^verbatim>\<open>renderServiceTable\<close> returns the
  loading placeholder exactly when its argument is \<^verbatim>\<open>null\<close> or lacks the
  \<^verbatim>\<open>deliveryItems\<close> field. The guard tests truthiness, not presence: for the
  arguments \<^verbatim>\<open>{deliveryItems: null}\<close> and \<^verbatim>\<open>{deliveryItems: false}\<close>, which
  are not \<^verbatim>\<open>null\<close> and do have the field, the placeholder is returned all the same.
\<close>

theorem renderServiceTable_guard_counterexample:
  "renderServiceTable (JObj [(''deliveryItems'', JNull)]) = Inr renderServiceTable_loading \<and>
   JObj [(''deliveryItems'', JNull)] \<noteq> JNull \<and>
   \<not> lacks_field (JObj [(''deliveryItems'', JNull)]) ''deliveryItems'' \<and>
   renderServiceTable (JObj [(''deliveryItems'', JBool False)]) = Inr renderServiceTable_loading \<and>
   JObj [(''deliveryItems'', JBool False)] \<noteq> JNull \<and>
   \<not> lacks_field (JObj [(''deliveryItems'', JBool False)]) ''deliveryItems''"
  by (simp add: renderServiceTable_def)

text \<open>
  Claim C3, amended. \<^verbatim>\<open>renderServiceTable\<close> returns the loading placeholder (not a
  table) exactly when its argument is not an object that holds a truthy
  \<^verbatim>\<open>deliveryItems\<close> value: when the argument is \<^verbatim>\<open>null\<close> or no object, when the
  field is missing, and also when the field is present but \<^verbatim>\<open>null\<close>, \<^verbatim>\<open>false\<close>,
  \<^verbatim>\<open>0\<close> or the empty string. When \<^verbatim>\<open>deliveryItems\<close> is an array of delivery
  item records, it returns the table fragment: the head, one data row per item in the
  order of the array, each row holding that item's \<^verbatim>\<open>reportType\<close>,
  \<^verbatim>\<open>frequency\<close>, \<^verbatim>\<open>coreContent\<close> and \<^verbatim>\<open>value\<close>, and the foot.
\<close>

theorem renderServiceTable_placeholder_or_table:
  "(renderServiceTable model = Inr renderServiceTable_loading \<longleftrightarrow>
      \<not> has_truthy_field model ''deliveryItems'') \<and>
   (\<forall>kvs items.
      model = JObj kvs \<and> map_of kvs ''deliveryItems'' = Some (JArr items) \<and>
      list_all (text_record deliveryItem_fields) items \<longrightarrow>
      (\<exists>tableRows.
         renderServiceTable model =
           Inr (renderServiceTable_head @ concat tableRows @ renderServiceTable_foot) \<and>
         length tableRows = length items \<and>
         (\<forall>i < length items.
            tableRows ! i =
              renderServiceTable_row_part0 @ field (items ! i) ''reportType'' @
              renderServiceTable_row_part1 @ field (items ! i) ''frequency'' @
              renderServiceTable_row_part2 @ field (items ! i) ''coreContent'' @
              renderServiceTable_row_part3 @ field (items ! i) ''value'' @
              renderServiceTable_row_part4)))"
proof (intro conjI allI impI)
  show "renderServiceTable model = Inr renderServiceTable_loading \<longleftrightarrow>
      \<not> has_truthy_field model ''deliveryItems''"
    using renderServiceTable_guard_fails renderServiceTable_guard_passes by blast
next
  fix kvs items
  assume a: "model = JObj kvs \<and> map_of kvs ''deliveryItems'' = Some (JArr items) \<and>
      list_all (text_record deliveryItem_fields) items"
  let ?rows = "map (\<lambda>item. projr (renderServiceTable_row item)) items"
  have "renderServiceTable model =
      Inr (renderServiceTable_head @ concat ?rows @ renderServiceTable_foot)"
    using a renderServiceTable_rows by simp
  moreover have "length ?rows = length items" by simp
  moreover have "\<forall>i < length items.
      ?rows ! i =
        renderServiceTable_row_part0 @ field (items ! i) ''reportType'' @
        renderServiceTable_row_part1 @ field (items ! i) ''frequency'' @
        renderServiceTable_row_part2 @ field (items ! i) ''coreContent'' @
        renderServiceTable_row_part3 @ field (items ! i) ''value'' @
        renderServiceTable_row_part4"
    using a by (simp add: list_all_length renderServiceTable_row_text_record)
  ultimately show "\<exists>tableRows.
      renderServiceTable model =
        Inr (renderServiceTable_head @ concat tableRows @ renderServiceTable_foot) \<and>
      length tableRows = length items \<and>
      (\<forall>i < length items.
         tableRows ! i =
           renderServiceTable_row_part0 @ field (items ! i) ''reportType'' @
           renderServiceTable_row_part1 @ field (items ! i) ''frequency'' @
           renderServiceTable_row_part2 @ field (items ! i) ''coreContent'' @
           renderServiceTable_row_part3 @ field (items ! i) ''value'' @
           renderServiceTable_row_part4)"
    by blast
qed

theorem renderServiceTable_placeholder_or_table_witness:
  "renderServiceTable (JObj [(''deliveryItems'', JArr [example_deliveryItem])]) =
     Inr (renderServiceTable_head @
          (renderServiceTable_row_part0 @ ''A'' @ renderServiceTable_row_part1 @ ''B'' @
           renderServiceTable_row_part2 @ ''C'' @ renderServiceTable_row_part3 @ ''D'' @
           renderServiceTable_row_part4) @
          renderServiceTable_foot) \<and>
   renderServiceTable JNull = Inr renderServiceTable_loading \<and>
   renderServiceTable (JObj []) = Inr renderServiceTable_loading"
proof -
  let ?model = "JObj [(''deliveryItems'', JArr [example_deliveryItem])]"
  note main = renderServiceTable_placeholder_or_table
  have typed: "list_all (text_record deliveryItem_fields) [example_deliveryItem]"
    by (simp add: deliveryItem_fields_def example_deliveryItem_def)
  from main [of ?model] typed obtain tableRows where
    r: "renderServiceTable ?model =
          Inr (renderServiceTable_head @ concat tableRows @ renderServiceTable_foot)"
    and l: "length tableRows = 1"
    and c: "tableRows ! 0 =
          renderServiceTable_row_part0 @ field example_deliveryItem ''reportType'' @
          renderServiceTable_row_part1 @ field example_deliveryItem ''frequency'' @
          renderServiceTable_row_part2 @ field example_deliveryItem ''coreContent'' @
          renderServiceTable_row_part3 @ field example_deliveryItem ''value'' @
          renderServiceTable_row_part4"
    by auto
  from l obtain row where "tableRows = [row]"
    by (cases tableRows) auto
  with r c have first: "renderServiceTable ?model =
     Inr (renderServiceTable_head @
          (renderServiceTable_row_part0 @ ''A'' @ renderServiceTable_row_part1 @ ''B'' @
           renderServiceTable_row_part2 @ ''C'' @ renderServiceTable_row_part3 @ ''D'' @
           renderServiceTable_row_part4) @
          renderServiceTable_foot)"
    by (simp add: example_deliveryItem_def)
  have "renderServiceTable JNull = Inr renderServiceTable_loading"
    using main [of JNull] by simp
  moreover have "renderServiceTable (JObj []) = Inr renderServiceTable_loading"
    using main [of "JObj []"] by simp
  ultimately show ?thesis using first by simp
qed

text \<open>
  Claim C8. \<^verbatim>\<open>renderFeatureCard\<close> applied to the record with the icon U+1F527, the
  title \<^verbatim>\<open>T\<close>, the description \<^verbatim>\<open>D\<close> and the value \<^verbatim>\<open>V\<close> returns the
  fragment made of the five fixed parts of the template with the four field values,
  verbatim, between them. Nothing else of the record shows: whatever further
  properties \<open>others\<close> the record has (none, for the record of the claim), the
  fragment is the same.
\<close>

theorem renderFeatureCard_example:
  "renderFeatureCard (JObj (example_feature @ others)) =
     Inr (renderFeatureCard_part0 @ wrench @ renderFeatureCard_part1 @ ''T'' @
          renderFeatureCard_part2 @ ''D'' @ renderFeatureCard_part3 @ ''V'' @
          renderFeatureCard_part4)"
  by (simp add: renderFeatureCard_def subst_def example_feature_def)

text \<open>
  Claim C9. For a payload whose \<^verbatim>\<open>deliveryItems\<close> is present and the empty array,
  \<^verbatim>\<open>renderServiceTable\<close> returns the table fragment with its head and no data row,
  not the loading placeholder: the empty array is truthy and passes the guard.
\<close>

theorem renderServiceTable_empty_list:
  "map_of kvs ''deliveryItems'' = Some (JArr []) \<Longrightarrow>
   renderServiceTable (JObj kvs) = Inr (renderServiceTable_head @ renderServiceTable_foot) \<and>
   renderServiceTable (JObj kvs) \<noteq> Inr renderServiceTable_loading"
  by (simp add: renderServiceTable_def table_not_loading)

theorem renderServiceTable_empty_list_witness:
  "renderServiceTable (JObj [(''deliveryItems'', JArr [])]) =
     Inr (renderServiceTable_head @ renderServiceTable_foot) \<and>
   renderServiceTable (JObj [(''deliveryItems'', JArr [])]) \<noteq> Inr renderServiceTable_loading"
proof -
  have "map_of [(''deliveryItems'', JArr [])] ''deliveryItems'' = Some (JArr [])"
    by simp
  from renderServiceTable_empty_list [OF this] show ?thesis .
qed

section \<open>PageManager: what reaches the page\<close>

lemma getElementById_eq: "getElementById d i = (if d i = None then None else Some i)"
  by (simp add: getElementById_def split: option.splits)

lemma lacks_no_truthy_field: "v = JNull \<or> lacks_field v k \<Longrightarrow> \<not> has_truthy_field v k"
  by (cases v) auto

lemma renderFeatures_guard_fails:
  "\<not> has_truthy_field (features (data st)) ''features'' \<Longrightarrow> renderFeatures st d = Inr d"
  by (cases "features (data st)")
    (simp_all add: renderFeatures_def split: option.splits)

lemma renderTechnologyPreview_guard_fails:
  "\<not> has_truthy_field (techAdvantages (data st)) ''technologies'' \<Longrightarrow>
   renderTechnologyPreview st d = Inr d"
  by (cases "techAdvantages (data st)")
    (simp_all add: renderTechnologyPreview_def split: option.splits)

lemma renderUseCases_guard_fails:
  "\<not> has_truthy_field (useCases (data st)) ''scenarios'' \<Longrightarrow> renderUseCases st d = Inr d"
  by (cases "useCases (data st)")
    (simp_all add: renderUseCases_def split: option.splits)

lemma renderServiceModel_guard_fails:
  "\<not> has_truthy_field (serviceModel (data st)) ''deliveryItems'' \<Longrightarrow>
   renderServiceModel st d =
     Inr (if d ''service-table-container'' = None then d
          else d(''service-table-container'' \<mapsto> renderServiceTable_loading))"
  by (simp add: renderServiceModel_def getElementById_eq renderServiceTable_guard_fails
      set_innerHTML_def)

lemma showLoading_step_at:
  "(case getElementById d c of None \<Rightarrow> d' | Some el \<Rightarrow> showLoading (getElementById d c) d') i =
     (if i = c \<and> d c \<noteq> None then Some showLoading_markup else d' i)"
  by (cases "d c") (simp_all add: getElementById_def showLoading_def set_innerHTML_def)

lemma showLoadingStates_at:
  "showLoadingStates d i =
     (if i = ''service-table-container'' \<and> d ''service-table-container'' \<noteq> None
      then Some showLoading_markup
      else if i = ''use-cases-grid'' \<and> d ''use-cases-grid'' \<noteq> None
      then Some showLoading_markup
      else if i = ''tech-preview'' \<and> d ''tech-preview'' \<noteq> None
      then Some showLoading_markup
      else if i = ''features-grid'' \<and> d ''features-grid'' \<noteq> None
      then Some showLoading_markup
      else d i)"
  unfolding showLoadingStates_def
  by (simp only: fold.simps comp_apply id_apply showLoading_step_at)

lemma markup_differs: "showLoading_markup \<noteq> renderFallbackContent_markup"
  by (simp add: showLoading_markup_def renderFallbackContent_markup_def)

lemma renderFeatures_cards:
  assumes "features (data st) = JObj kvs"
    and "map_of kvs ''features'' = Some (JArr fs)"
    and "list_all (text_record feature_fields) fs"
    and "d ''features-grid'' \<noteq> None"
  shows "renderFeatures st d =
     Inr (d(''features-grid'' \<mapsto>
            concat (map (\<lambda>f. projr (renderFeatureCard f)) (take 6 fs))))"
proof -
  have "\<forall>f \<in> set (take 6 fs). \<exists>y. renderFeatureCard f = Inr y"
    using assms(3) by (auto simp: list_all_iff renderFeatureCard_text_record dest: in_set_takeD)
  then have "map_throw renderFeatureCard (take 6 fs) =
      Inr (map (\<lambda>f. projr (renderFeatureCard f)) (take 6 fs))"
    by (rule map_throw_total)
  moreover obtain html where "d ''features-grid'' = Some html"
    using assms(4) by blast
  ultimately show ?thesis
    using assms(1,2) by (simp add: renderFeatures_def getElementById_def set_innerHTML_def)
qed

lemma renderUseCases_cards:
  assumes "useCases (data st) = JObj kvs"
    and "map_of kvs ''scenarios'' = Some (JArr us)"
    and "list_all (text_record useCase_fields) us"
    and "d ''use-cases-grid'' \<noteq> None"
  shows "renderUseCases st d =
     Inr (d(''use-cases-grid'' \<mapsto>
            concat (map (\<lambda>u. projr (renderUseCaseCard u)) (take 3 us))))"
proof -
  have "\<forall>u \<in> set (take 3 us). \<exists>y. renderUseCaseCard u = Inr y"
    using assms(3) by (auto simp: list_all_iff renderUseCaseCard_text_record dest: in_set_takeD)
  then have "map_throw renderUseCaseCard (take 3 us) =
      Inr (map (\<lambda>u. projr (renderUseCaseCard u)) (take 3 us))"
    by (rule map_throw_total)
  moreover obtain html where "d ''use-cases-grid'' = Some html"
    using assms(4) by blast
  ultimately show ?thesis
    using assms(1,2) by (simp add: renderUseCases_def getElementById_def set_innerHTML_def)
qed

lemma first_cards_nth:
  assumes "\<forall>x \<in> set xs. \<exists>y. f x = Inr y"
    and "i < length (map (\<lambda>x. projr (f x)) (take n xs))"
  shows "f (xs ! i) = Inr (map (\<lambda>x. projr (f x)) (take n xs) ! i)"
proof -
  from assms(2) have i: "i < length xs" "i < n" by simp_all
  then have "xs ! i \<in> set xs" by simp
  with assms(1) obtain y where "f (xs ! i) = Inr y" by blast
  with i show ?thesis by simp
qed

text \<open>
  Claim C4. For a features payload whose \<^verbatim>\<open>features\<close> array holds \<open>n\<close> feature
  records, \<^verbatim>\<open>renderFeatures\<close> assigns to the features container the concatenation
  of exactly \<open>min n 6\<close> fragments, the \<open>i\<close>-th of them the feature card of the
  \<open>i\<close>-th record of the array: the first six, in the order of the array. For a
  use-case payload whose \<^verbatim>\<open>scenarios\<close> array holds \<open>m\<close> use-case records,
  \<^verbatim>\<open>renderUseCases\<close> does the same with \<open>min m 3\<close> use-case cards. (The container
  is taken to exist; without it nothing is injected.)
\<close>

theorem render_cards_capped:
  "(\<forall>kvs fs.
      features (data st) = JObj kvs \<and> map_of kvs ''features'' = Some (JArr fs) \<and>
      list_all (text_record feature_fields) fs \<and> d ''features-grid'' \<noteq> None \<longrightarrow>
      (\<exists>cards.
         renderFeatures st d = Inr (d(''features-grid'' \<mapsto> concat cards)) \<and>
         length cards = min (length fs) 6 \<and>
         (\<forall>i < length cards. renderFeatureCard (fs ! i) = Inr (cards ! i)))) \<and>
   (\<forall>kvs us.
      useCases (data st) = JObj kvs \<and> map_of kvs ''scenarios'' = Some (JArr us) \<and>
      list_all (text_record useCase_fields) us \<and> d ''use-cases-grid'' \<noteq> None \<longrightarrow>
      (\<exists>cards.
         renderUseCases st d = Inr (d(''use-cases-grid'' \<mapsto> concat cards)) \<and>
         length cards = min (length us) 3 \<and>
         (\<forall>i < length cards. renderUseCaseCard (us ! i) = Inr (cards ! i))))"
proof (intro conjI allI impI)
  fix kvs fs
  assume a: "features (data st) = JObj kvs \<and> map_of kvs ''features'' = Some (JArr fs) \<and>
      list_all (text_record feature_fields) fs \<and> d ''features-grid'' \<noteq> None"
  let ?cards = "map (\<lambda>f. projr (renderFeatureCard f)) (take 6 fs)"
  have ok: "\<forall>f \<in> set fs. \<exists>y. renderFeatureCard f = Inr y"
    using a by (simp add: list_all_iff renderFeatureCard_text_record)
  from a have a1: "features (data st) = JObj kvs"
    and a2: "map_of kvs ''features'' = Some (JArr fs)"
    and a3: "list_all (text_record feature_fields) fs"
    and a4: "d ''features-grid'' \<noteq> None"
    by blast+
  have 1: "renderFeatures st d = Inr (d(''features-grid'' \<mapsto> concat ?cards))"
    by (rule renderFeatures_cards [of st kvs fs d, OF a1 a2 a3 a4])
  have 2: "length ?cards = min (length fs) 6"
    by simp
  have 3: "\<forall>i < length ?cards. renderFeatureCard (fs ! i) = Inr (?cards ! i)"
    using first_cards_nth [OF ok] by blast
  show "\<exists>cards.
      renderFeatures st d = Inr (d(''features-grid'' \<mapsto> concat cards)) \<and>
      length cards = min (length fs) 6 \<and>
      (\<forall>i < length cards. renderFeatureCard (fs ! i) = Inr (cards ! i))"
    by (rule exI [of _ ?cards]) (intro conjI 1 2 3)
next
  fix kvs us
  assume a: "useCases (data st) = JObj kvs \<and> map_of kvs ''scenarios'' = Some (JArr us) \<and>
      list_all (text_record useCase_fields) us \<and> d ''use-cases-grid'' \<noteq> None"
  let ?cards = "map (\<lambda>u. projr (renderUseCaseCard u)) (take 3 us)"
  have ok: "\<forall>u \<in> set us. \<exists>y. renderUseCaseCard u = Inr y"
    using a by (simp add: list_all_iff renderUseCaseCard_text_record)
  from a have a1: "useCases (data st) = JObj kvs"
    and a2: "map_of kvs ''scenarios'' = Some (JArr us)"
    and a3: "list_all (text_record useCase_fields) us"
    and a4: "d ''use-cases-grid'' \<noteq> None"
    by blast+
  have 1: "renderUseCases st d = Inr (d(''use-cases-grid'' \<mapsto> concat ?cards))"
    by (rule renderUseCases_cards [of st kvs us d, OF a1 a2 a3 a4])
  have 2: "length ?cards = min (length us) 3"
    by simp
  have 3: "\<forall>i < length ?cards. renderUseCaseCard (us ! i) = Inr (?cards ! i)"
    using first_cards_nth [OF ok] by blast
  show "\<exists>cards.
      renderUseCases st d = Inr (d(''use-cases-grid'' \<mapsto> concat cards)) \<and>
      length cards = min (length us) 3 \<and>
      (\<forall>i < length cards. renderUseCaseCard (us ! i) = Inr (cards ! i))"
    by (rule exI [of _ ?cards]) (intro conjI 1 2 3)
qed

theorem render_cards_capped_witness:
  "(\<exists>cards.
      renderFeatures example_loaded example_page =
        Inr (example_page(''features-grid'' \<mapsto> concat cards)) \<and>
      length cards = 6 \<and>
      renderFeatureCard (numbered_feature 0) = Inr (cards ! 0) \<and>
      renderFeatureCard (numbered_feature 5) = Inr (cards ! 5)) \<and>
   (\<exists>cards.
      renderUseCases example_loaded example_page =
        Inr (example_page(''use-cases-grid'' \<mapsto> concat cards)) \<and>
      length cards = 3 \<and>
      renderUseCaseCard (numbered_useCase 0) = Inr (cards ! 0) \<and>
      renderUseCaseCard (numbered_useCase 2) = Inr (cards ! 2))"
proof -
  note main = render_cards_capped [of example_loaded example_page]
  let ?fs = "map numbered_feature [0..<10]"
  let ?us = "map numbered_useCase [0..<4]"
  have f: "list_all (text_record feature_fields) ?fs"
    by (simp add: list_all_iff feature_fields_def numbered_feature_def)
  have u: "list_all (text_record useCase_fields) ?us"
    by (simp add: list_all_iff useCase_fields_def numbered_useCase_def)
  have page: "example_page ''features-grid'' \<noteq> None" "example_page ''use-cases-grid'' \<noteq> None"
    by (simp_all add: example_page_def)
  have st: "features (data example_loaded) = JObj [(''features'', JArr ?fs)]"
    "useCases (data example_loaded) = JObj [(''scenarios'', JArr ?us)]"
    by (simp_all add: example_loaded_def state_with_def)
  from main f page(1) st(1) obtain cards where
    c: "renderFeatures example_loaded example_page =
          Inr (example_page(''features-grid'' \<mapsto> concat cards))"
      "length cards = min (length ?fs) 6"
      "\<forall>i < length cards. renderFeatureCard (?fs ! i) = Inr (cards ! i)"
    by auto
  from main u page(2) st(2) obtain cards' where
    c': "renderUseCases example_loaded example_page =
          Inr (example_page(''use-cases-grid'' \<mapsto> concat cards'))"
      "length cards' = min (length ?us) 3"
      "\<forall>i < length cards'. renderUseCaseCard (?us ! i) = Inr (cards' ! i)"
    by auto
  from c(2) have l: "length cards = 6" by simp
  from c'(2) have l': "length cards' = 3" by simp
  have n: "renderFeatureCard (numbered_feature 0) = Inr (cards ! 0)"
    "renderFeatureCard (numbered_feature 5) = Inr (cards ! 5)"
    using c(3) [rule_format, of 0] c(3) [rule_format, of 5] l by simp_all
  have n': "renderUseCaseCard (numbered_useCase 0) = Inr (cards' ! 0)"
    "renderUseCaseCard (numbered_useCase 2) = Inr (cards' ! 2)"
    using c'(3) [rule_format, of 0] c'(3) [rule_format, of 2] l'
    by (simp_all add: numeral_2_eq_2)
  from c(1) l n c'(1) l' n' show ?thesis
    by blast
qed

text \<open>
  Claim C5. When the payload of a section is \<^verbatim>\<open>null\<close> or lacks the field the section
  expects, the render step of that section does not throw and its container stays in a
  placeholder state: \<^verbatim>\<open>renderFeatures\<close>, \<^verbatim>\<open>renderTechnologyPreview\<close> and
  \<^verbatim>\<open>renderUseCases\<close> return with the page untouched, so the container keeps the
  loading placeholder it was given before the load, and \<^verbatim>\<open>renderServiceModel\<close>
  writes the loading placeholder of \<^verbatim>\<open>renderServiceTable\<close> into its container (when
  the page has one).
\<close>

theorem render_missing_payload:
  "(features (data st) = JNull \<or> lacks_field (features (data st)) ''features'' \<longrightarrow>
      renderFeatures st d = Inr d) \<and>
   (techAdvantages (data st) = JNull \<or> lacks_field (techAdvantages (data st)) ''technologies'' \<longrightarrow>
      renderTechnologyPreview st d = Inr d) \<and>
   (useCases (data st) = JNull \<or> lacks_field (useCases (data st)) ''scenarios'' \<longrightarrow>
      renderUseCases st d = Inr d) \<and>
   (serviceModel (data st) = JNull \<or> lacks_field (serviceModel (data st)) ''deliveryItems'' \<longrightarrow>
      renderServiceModel st d =
        Inr (if d ''service-table-container'' = None then d
             else d(''service-table-container'' \<mapsto> renderServiceTable_loading)))"
proof (intro conjI impI)
  assume "features (data st) = JNull \<or> lacks_field (features (data st)) ''features''"
  then show "renderFeatures st d = Inr d"
    by (rule renderFeatures_guard_fails [OF lacks_no_truthy_field])
next
  assume "techAdvantages (data st) = JNull \<or>
    lacks_field (techAdvantages (data st)) ''technologies''"
  then show "renderTechnologyPreview st d = Inr d"
    by (rule renderTechnologyPreview_guard_fails [OF lacks_no_truthy_field])
next
  assume "useCases (data st) = JNull \<or> lacks_field (useCases (data st)) ''scenarios''"
  then show "renderUseCases st d = Inr d"
    by (rule renderUseCases_guard_fails [OF lacks_no_truthy_field])
next
  assume "serviceModel (data st) = JNull \<or>
    lacks_field (serviceModel (data st)) ''deliveryItems''"
  then show "renderServiceModel st d =
      Inr (if d ''service-table-container'' = None then d
           else d(''service-table-container'' \<mapsto> renderServiceTable_loading))"
    by (rule renderServiceModel_guard_fails [OF lacks_no_truthy_field])
qed

theorem render_missing_payload_witness:
  "renderFeatures (state_with JNull (JObj []) JNull (JObj [])) (showLoadingStates example_page) =
     Inr (showLoadingStates example_page) \<and>
   renderTechnologyPreview (state_with JNull (JObj []) JNull (JObj [])) (showLoadingStates example_page) =
     Inr (showLoadingStates example_page) \<and>
   renderUseCases (state_with JNull (JObj []) JNull (JObj [])) (showLoadingStates example_page) =
     Inr (showLoadingStates example_page) \<and>
   renderServiceModel (state_with JNull (JObj []) JNull (JObj [])) (showLoadingStates example_page) =
     Inr ((showLoadingStates example_page)(''service-table-container'' \<mapsto> renderServiceTable_loading)) \<and>
   showLoadingStates example_page ''features-grid'' = Some showLoading_markup"
  using render_missing_payload
    [of "state_with JNull (JObj []) JNull (JObj [])" "showLoadingStates example_page"]
  by (simp add: state_with_def showLoadingStates_at example_page_def)

text \<open>
  Claim C10. Each of the three card sections needs a wrapper object: when the payload
  is not an object with a truthy \<^verbatim>\<open>features\<close> (\<^verbatim>\<open>technologies\<close>,
  \<^verbatim>\<open>scenarios\<close>) field, \<^verbatim>\<open>renderFeatures\<close> (\<^verbatim>\<open>renderTechnologyPreview\<close>,
  \<^verbatim>\<open>renderUseCases\<close>) renders nothing and leaves the page as it is. In particular
  a payload that is itself an array of records fails the check, and its container keeps
  its placeholder.
\<close>

theorem render_needs_wrapper:
  "(\<not> has_truthy_field (features (data st)) ''features'' \<longrightarrow> renderFeatures st d = Inr d) \<and>
   (\<not> has_truthy_field (techAdvantages (data st)) ''technologies'' \<longrightarrow>
      renderTechnologyPreview st d = Inr d) \<and>
   (\<not> has_truthy_field (useCases (data st)) ''scenarios'' \<longrightarrow> renderUseCases st d = Inr d) \<and>
   (\<forall>records. features (data st) = JArr records \<longrightarrow> renderFeatures st d = Inr d) \<and>
   (\<forall>records. techAdvantages (data st) = JArr records \<longrightarrow> renderTechnologyPreview st d = Inr d) \<and>
   (\<forall>records. useCases (data st) = JArr records \<longrightarrow> renderUseCases st d = Inr d)"
  by (auto simp: renderFeatures_guard_fails renderTechnologyPreview_guard_fails
      renderUseCases_guard_fails)

theorem render_needs_wrapper_witness:
  "renderFeatures (state_with (JArr [JObj example_feature]) (JArr []) (JArr []) JNull) example_page = Inr example_page \<and>
   renderTechnologyPreview (state_with (JArr [JObj example_feature]) (JArr []) (JArr []) JNull) example_page = Inr example_page \<and>
   renderUseCases (state_with (JArr [JObj example_feature]) (JArr []) (JArr []) JNull) example_page = Inr example_page"
  using render_needs_wrapper
    [of "state_with (JArr [JObj example_feature]) (JArr []) (JArr []) JNull" example_page]
  by (simp add: state_with_def)

text \<open>
  Claim C6. When \<^verbatim>\<open>loadAllData\<close> returns \<^verbatim>\<open>false\<close>, the branch that
  \<^verbatim>\<open>loadAndRenderContent\<close> takes is \<^verbatim>\<open>renderFallbackContent\<close>: the features
  container (when the page has one) gets the single static fallback message, and every
  other element, so the tech, use-case and service-table containers, keeps what it
  held.
\<close>

theorem fallback_only_features:
  "renderLoaded False st d = Inr (renderFallbackContent d) \<and>
   renderFallbackContent d ''features-grid'' =
     (if d ''features-grid'' = None then None else Some renderFallbackContent_markup) \<and>
   (\<forall>i. i \<noteq> ''features-grid'' \<longrightarrow> renderFallbackContent d i = d i)"
  by (simp add: renderLoaded_def renderFallbackContent_def getElementById_eq set_innerHTML_def)

theorem fallback_only_features_witness:
  "renderLoaded False AppState (showLoadingStates example_page) =
     Inr (renderFallbackContent (showLoadingStates example_page)) \<and>
   renderFallbackContent (showLoadingStates example_page) ''features-grid'' =
     Some renderFallbackContent_markup \<and>
   renderFallbackContent (showLoadingStates example_page) ''tech-preview'' = Some showLoading_markup \<and>
   renderFallbackContent (showLoadingStates example_page) ''use-cases-grid'' = Some showLoading_markup \<and>
   renderFallbackContent (showLoadingStates example_page) ''service-table-container'' =
     Some showLoading_markup"
  using fallback_only_features [of AppState "showLoadingStates example_page"]
  by (simp add: showLoadingStates_at example_page_def)

section \<open>The load cycle when every request is rejected\<close>

lemma loadJSON_rejected: "fetch p = Inl e \<Longrightarrow> loadJSON fetch p = Inr JNull"
  by (simp add: loadJSON_def loadJSON_try_def)

lemma loadAllData_rejected:
  assumes "\<exists>e. fetch ''data/product-features.json'' = Inl e"
    and "\<exists>e. fetch ''data/tech-advantages.json'' = Inl e"
    and "\<exists>e. fetch ''data/use-cases.json'' = Inl e"
    and "\<exists>e. fetch ''data/service-model.json'' = Inl e"
  shows "loadAllData fetch st = (Inr True, \<lparr>isLoading = False, data = null_data\<rparr>)"
  using assms by (auto simp: loadAllData_result loadJSON_rejected null_data_def)

lemma renderLoaded_null_data:
  assumes "data st = null_data"
  shows "renderLoaded True st d =
     Inr (if d ''service-table-container'' = None then d
          else d(''service-table-container'' \<mapsto> renderServiceTable_loading))"
proof -
  have "\<not> has_truthy_field (features (data st)) ''features''"
    "\<not> has_truthy_field (techAdvantages (data st)) ''technologies''"
    "\<not> has_truthy_field (useCases (data st)) ''scenarios''"
    "\<not> has_truthy_field (serviceModel (data st)) ''deliveryItems''"
    using assms by (simp_all add: null_data_def)
  then show ?thesis
    by (simp add: renderLoaded_def renderFeatures_guard_fails
        renderTechnologyPreview_guard_fails renderUseCases_guard_fails
        renderServiceModel_guard_fails)
qed

lemma loadAndRenderContent_rejected:
  assumes "\<exists>e. fetch ''data/product-features.json'' = Inl e"
    and "\<exists>e. fetch ''data/tech-advantages.json'' = Inl e"
    and "\<exists>e. fetch ''data/use-cases.json'' = Inl e"
    and "\<exists>e. fetch ''data/service-model.json'' = Inl e"
  shows "loadAndRenderContent fetch (st, d) =
     Inr (\<lparr>isLoading = False, data = null_data\<rparr>,
          if d ''service-table-container'' = None then showLoadingStates d
          else (showLoadingStates d)(''service-table-container'' \<mapsto> renderServiceTable_loading))"
proof -
  have "renderLoaded True \<lparr>isLoading = False, data = null_data\<rparr> (showLoadingStates d) =
     Inr (if d ''service-table-container'' = None then showLoadingStates d
          else (showLoadingStates d)(''service-table-container'' \<mapsto> renderServiceTable_loading))"
    by (simp add: renderLoaded_null_data showLoadingStates_at)
  then show ?thesis
    by (simp add: loadAndRenderContent_def loadAllData_rejected [OF assms])
qed

text \<open>
  Claim C2, as stated, fails. It says that when all four requests are rejected the
  features container shows the static fallback message and the failure branch of
  \<^verbatim>\<open>loadAndRenderContent\<close> (\<^verbatim>\<open>renderFallbackContent\<close>) runs. On a page with the
  four containers and a network that rejects every request, \<^verbatim>\<open>loadAllData\<close> is
  fulfilled with \<^verbatim>\<open>true\<close>, the run ends without an exception, and the features
  container holds the loading placeholder of \<^verbatim>\<open>showLoading\<close>, which is not the
  fallback message.
\<close>

theorem all_rejected_counterexample:
  "fst (loadAllData rejecting_fetch AppState) = Inr True \<and>
   loadAndRenderContent rejecting_fetch (AppState, example_page) =
     Inr (AppState,
          (showLoadingStates example_page)
            (''service-table-container'' \<mapsto> renderServiceTable_loading)) \<and>
   ((showLoadingStates example_page)
      (''service-table-container'' \<mapsto> renderServiceTable_loading)) ''features-grid'' =
     Some showLoading_markup \<and>
   showLoading_markup \<noteq> renderFallbackContent_markup"
proof -
  have r: "\<exists>e. rejecting_fetch p = Inl e" for p
    by (simp add: rejecting_fetch_def)
  have "loadAllData rejecting_fetch AppState = (Inr True, AppState)"
    by (simp add: loadAllData_rejected [OF r r r r] AppState_def null_data_def)
  moreover have "loadAndRenderContent rejecting_fetch (AppState, example_page) =
     Inr (AppState,
          (showLoadingStates example_page)
            (''service-table-container'' \<mapsto> renderServiceTable_loading))"
    by (simp add: loadAndRenderContent_rejected [OF r r r r] AppState_def null_data_def
        example_page_def)
  moreover have "((showLoadingStates example_page)
      (''service-table-container'' \<mapsto> renderServiceTable_loading)) ''features-grid'' =
     Some showLoading_markup"
    by (simp add: showLoadingStates_at example_page_def)
  ultimately show ?thesis
    using markup_differs by simp
qed

text \<open>
  Claim C2, amended. When all four requests are rejected, \<^verbatim>\<open>loadAllData\<close> is
  fulfilled with \<^verbatim>\<open>true\<close> (nothing is thrown) and stores \<^verbatim>\<open>null\<close> under all four
  keys; \<^verbatim>\<open>loadAndRenderContent\<close> ends without an exception and takes its success
  branch, not \<^verbatim>\<open>renderFallbackContent\<close>. The features container does not show the
  static fallback message: like the tech and use-case containers it keeps the loading
  placeholder written before the load, and the service-table container shows the
  loading text of \<^verbatim>\<open>renderServiceTable\<close>.
\<close>

theorem all_rejected_keeps_placeholders:
  "(\<exists>e. fetch ''data/product-features.json'' = Inl e) \<and>
   (\<exists>e. fetch ''data/tech-advantages.json'' = Inl e) \<and>
   (\<exists>e. fetch ''data/use-cases.json'' = Inl e) \<and>
   (\<exists>e. fetch ''data/service-model.json'' = Inl e) \<longrightarrow>
   fst (loadAllData fetch st) = Inr True \<and>
   data (snd (loadAllData fetch st)) = null_data \<and>
   (\<exists>page.
      loadAndRenderContent fetch (st, d) = Inr (snd (loadAllData fetch st), page) \<and>
      renderLoaded True (snd (loadAllData fetch st)) (showLoadingStates d) = Inr page \<and>
      page ''features-grid'' =
        (if d ''features-grid'' = None then None else Some showLoading_markup) \<and>
      page ''features-grid'' \<noteq> Some renderFallbackContent_markup \<and>
      page ''tech-preview'' =
        (if d ''tech-preview'' = None then None else Some showLoading_markup) \<and>
      page ''use-cases-grid'' =
        (if d ''use-cases-grid'' = None then None else Some showLoading_markup) \<and>
      page ''service-table-container'' =
        (if d ''service-table-container'' = None then None
         else Some renderServiceTable_loading))"
proof (intro impI)
  assume a: "(\<exists>e. fetch ''data/product-features.json'' = Inl e) \<and>
   (\<exists>e. fetch ''data/tech-advantages.json'' = Inl e) \<and>
   (\<exists>e. fetch ''data/use-cases.json'' = Inl e) \<and>
   (\<exists>e. fetch ''data/service-model.json'' = Inl e)"
  then have a1: "\<exists>e. fetch ''data/product-features.json'' = Inl e"
    and a2: "\<exists>e. fetch ''data/tech-advantages.json'' = Inl e"
    and a3: "\<exists>e. fetch ''data/use-cases.json'' = Inl e"
    and a4: "\<exists>e. fetch ''data/service-model.json'' = Inl e"
    by blast+
  let ?st = "\<lparr>isLoading = False, data = null_data\<rparr>"
  let ?page = "if d ''service-table-container'' = None then showLoadingStates d
     else (showLoadingStates d)(''service-table-container'' \<mapsto> renderServiceTable_loading)"
  have l: "loadAllData fetch st = (Inr True, ?st)"
    by (rule loadAllData_rejected [OF a1 a2 a3 a4])
  have 1: "loadAndRenderContent fetch (st, d) = Inr (snd (loadAllData fetch st), ?page)"
    by (simp add: l loadAndRenderContent_rejected [OF a1 a2 a3 a4])
  have 2: "renderLoaded True (snd (loadAllData fetch st)) (showLoadingStates d) = Inr ?page"
    by (simp add: l renderLoaded_null_data showLoadingStates_at)
  have 3: "?page ''features-grid'' =
      (if d ''features-grid'' = None then None else Some showLoading_markup)"
    by (simp add: showLoadingStates_at)
  have 4: "?page ''features-grid'' \<noteq> Some renderFallbackContent_markup"
    using markup_differs by (simp add: showLoadingStates_at)
  have 5: "?page ''tech-preview'' =
      (if d ''tech-preview'' = None then None else Some showLoading_markup)"
    by (simp add: showLoadingStates_at)
  have 6: "?page ''use-cases-grid'' =
      (if d ''use-cases-grid'' = None then None else Some showLoading_markup)"
    by (simp add: showLoadingStates_at)
  have 7: "?page ''service-table-container'' =
      (if d ''service-table-container'' = None then None
       else Some renderServiceTable_loading)"
    by (simp add: showLoadingStates_at)
  have "\<exists>page.
      loadAndRenderContent fetch (st, d) = Inr (snd (loadAllData fetch st), page) \<and>
      renderLoaded True (snd (loadAllData fetch st)) (showLoadingStates d) = Inr page \<and>
      page ''features-grid'' =
        (if d ''features-grid'' = None then None else Some showLoading_markup) \<and>
      page ''features-grid'' \<noteq> Some renderFallbackContent_markup \<and>
      page ''tech-preview'' =
        (if d ''tech-preview'' = None then None else Some showLoading_markup) \<and>
      page ''use-cases-grid'' =
        (if d ''use-cases-grid'' = None then None else Some showLoading_markup) \<and>
      page ''service-table-container'' =
        (if d ''service-table-container'' = None then None
         else Some renderServiceTable_loading)"
    by (rule exI [of _ ?page]) (intro conjI 1 2 3 4 5 6 7)
  then show "fst (loadAllData fetch st) = Inr True \<and>
   data (snd (loadAllData fetch st)) = null_data \<and>
   (\<exists>page.
      loadAndRenderContent fetch (st, d) = Inr (snd (loadAllData fetch st), page) \<and>
      renderLoaded True (snd (loadAllData fetch st)) (showLoadingStates d) = Inr page \<and>
      page ''features-grid'' =
        (if d ''features-grid'' = None then None else Some showLoading_markup) \<and>
      page ''features-grid'' \<noteq> Some renderFallbackContent_markup \<and>
      page ''tech-preview'' =
        (if d ''tech-preview'' = None then None else Some showLoading_markup) \<and>
      page ''use-cases-grid'' =
        (if d ''use-cases-grid'' = None then None else Some showLoading_markup) \<and>
      page ''service-table-container'' =
        (if d ''service-table-container'' = None then None
         else Some renderServiceTable_loading))"
    by (simp add: l)
qed

theorem all_rejected_keeps_placeholders_witness:
  "fst (loadAllData rejecting_fetch AppState) = Inr True \<and>
   data (snd (loadAllData rejecting_fetch AppState)) = null_data \<and>
   (\<exists>page.
      loadAndRenderContent rejecting_fetch (AppState, example_page) =
        Inr (snd (loadAllData rejecting_fetch AppState), page) \<and>
      page ''features-grid'' = Some showLoading_markup \<and>
      page ''features-grid'' \<noteq> Some renderFallbackContent_markup \<and>
      page ''tech-preview'' = Some showLoading_markup \<and>
      page ''use-cases-grid'' = Some showLoading_markup \<and>
      page ''service-table-container'' = Some renderServiceTable_loading)"
proof -
  have "(\<exists>e. rejecting_fetch ''data/product-features.json'' = Inl e) \<and>
   (\<exists>e. rejecting_fetch ''data/tech-advantages.json'' = Inl e) \<and>
   (\<exists>e. rejecting_fetch ''data/use-cases.json'' = Inl e) \<and>
   (\<exists>e. rejecting_fetch ''data/service-model.json'' = Inl e)"
    by (simp add: rejecting_fetch_def)
  moreover have "example_page ''features-grid'' = Some []"
    "example_page ''tech-preview'' = Some []"
    "example_page ''use-cases-grid'' = Some []"
    "example_page ''service-table-container'' = Some []"
    by (simp_all add: example_page_def)
  ultimately show ?thesis
    using all_rejected_keeps_placeholders [of rejecting_fetch AppState example_page]
    by auto
qed

end
